theory Spec2Isabelle
  imports Complex_Main
begin

section \<open>Batched Kalman filter kernels of cusignal (estimation/\_filters.py)\<close>

text \<open>
  The file \<^verbatim>\<open>_filters.py\<close> holds two GPU kernels in two versions each (Numba:
  \<^verbatim>\<open>_numba_predict\<close>, \<^verbatim>\<open>_numba_update\<close>; CuPy raw CUDA: \<^verbatim>\<open>_cupy_predict\<close>,
  \<^verbatim>\<open>_cupy_update\<close> with the device function \<^verbatim>\<open>inverse\<close>) and the kernel cache
  (\<^verbatim>\<open>_populate_kernel_cache\<close>, \<^verbatim>\<open>_get_backend_kernel\<close>).

  Numbers are exact (type \<open>real\<close>): rounding is not modelled.

  Execution model. A thread block has shape \<open>(dim_x, dim_x, blockDim.z)\<close>; the threads
  that share one \<open>threadIdx.z\<close> form the tile that works on one filter instance. The tile
  executes the kernel text statement by statement, all its threads together: every thread
  evaluates the right-hand side of a store on the memory as it is before the store, then
  the stores are committed. Where two threads of the tile store to the same cell in one
  statement, the hardware keeps one of the values; the model commits the stores in the order
  of a list \<open>ts\<close> of the tile's threads, so the thread that stands last in \<open>ts\<close> among the
  writers of a cell is the one whose value stays. The list is a parameter of every kernel.
\<close>

type_synonym thread = "nat \<times> nat"

definition par_store ::
  "thread list \<Rightarrow> (thread \<Rightarrow> bool) \<Rightarrow> (thread \<Rightarrow> 'k) \<Rightarrow> (thread \<Rightarrow> real) \<Rightarrow> ('k \<Rightarrow> real) \<Rightarrow> 'k \<Rightarrow> real" where
  "par_store ts g addr val m = fold (\<lambda>t m'. if g t then m'(addr t := val t) else m') ts m"

text \<open>The accumulation loop \<^verbatim>\<open>temp = 0; for j in range(n): temp += f(j)\<close>.\<close>

primrec dot :: "nat \<Rightarrow> (nat \<Rightarrow> real) \<Rightarrow> real" where
  "dot 0 f = 0"
| "dot (Suc n) f = dot n f + f n"

text \<open>
  The grid-stride loop \<^verbatim>\<open>for z_idx in range(z, x_in.shape[0], strideZ)\<close>
  (CuPy: \<^verbatim>\<open>for (tid_z = tz; tid_z < num_points; tid_z += stride_z)\<close>): the instance
  indices one tile visits, in order. \<open>stride = blockDim.z * gridDim.z\<close> is positive for
  every launch; the model returns no index for a zero stride.
\<close>

function grid_stride :: "nat \<Rightarrow> nat \<Rightarrow> nat \<Rightarrow> nat list" where
  "grid_stride z n stride =
     (if stride = 0 \<or> n \<le> z then [] else z # grid_stride (z + stride) n stride)"
  by pat_completeness auto
termination
  by (relation "measure (\<lambda>(z, n, stride). n - z)") auto

declare grid_stride.simps [simp del]

text \<open>
  The memory a kernel sees. Global buffers: \<open>g_alpha\<close> (alpha squared), \<open>g_x\<close> (state),
  \<open>g_z\<close> (measurement), \<open>g_F\<close>, \<open>g_H\<close>, \<open>g_P\<close>, \<open>g_Q\<close>, \<open>g_R\<close>; the Numba kernels
  index them by \<open>(instance, row, column)\<close>, the CuPy kernels by a flat offset, so the key
  type \<open>'k\<close> is a parameter. Shared arrays \<open>s_A\<close> ... \<open>s_F\<close>: one array per name and
  block, addressed by \<open>(blockIdx.z, offset)\<close>. (In the Numba kernels they are consecutive
  slices of one dynamic buffer \<^verbatim>\<open>s_buffer\<close>.) A kernel does not initialise shared memory:
  what a tile finds there is whatever the record holds.
\<close>

type_synonym idx3 = "nat \<times> nat \<times> nat"
type_synonym saddr = "nat \<times> nat"

record 'k kf_mem =
  g_alpha :: "'k \<Rightarrow> real"
  g_x :: "'k \<Rightarrow> real"
  g_z :: "'k \<Rightarrow> real"
  g_F :: "'k \<Rightarrow> real"
  g_H :: "'k \<Rightarrow> real"
  g_P :: "'k \<Rightarrow> real"
  g_Q :: "'k \<Rightarrow> real"
  g_R :: "'k \<Rightarrow> real"
  s_A :: "saddr \<Rightarrow> real"
  s_B :: "saddr \<Rightarrow> real"
  s_P :: "saddr \<Rightarrow> real"
  s_H :: "saddr \<Rightarrow> real"
  s_K :: "saddr \<Rightarrow> real"
  s_R :: "saddr \<Rightarrow> real"
  s_y :: "saddr \<Rightarrow> real"
  s_F :: "saddr \<Rightarrow> real"

subsection \<open>The predict kernels\<close>

text \<open>
  \<^verbatim>\<open>_numba_predict\<close>: the statements of the loop body, for the tile \<open>tz\<close> of block
  \<open>b\<close> working on instance \<open>z_idx\<close>. A thread is \<open>(x, y)\<close> = \<^verbatim>\<open>cuda.grid\<close>; \<open>x\<close> is
  the row. \<open>xx_idx = dim_x * dim_x * tz\<close> and \<open>x_key = x * dim_x + y\<close> are written out.
\<close>

text \<open>\<^verbatim>\<open>s_F[xx_idx + x_key] = F[z_idx, x, y]\<close>\<close>

definition np_load_F :: "thread list \<Rightarrow> nat \<Rightarrow> nat \<Rightarrow> nat \<Rightarrow> nat \<Rightarrow> idx3 kf_mem \<Rightarrow> idx3 kf_mem" where
  "np_load_F ts dim_x b tz z_idx m =
     m\<lparr>s_F := par_store ts (\<lambda>t. True) (\<lambda>(x, y). (b, dim_x * dim_x * tz + (x * dim_x + y)))
            (\<lambda>(x, y). g_F m (z_idx, x, y)) (s_F m)\<rparr>"

text \<open>\<^verbatim>\<open>if y == 0: temp = sum_j s_F[xx_idx + (x * dim_x + j)] * x_in[z_idx, j, y]; x_in[z_idx, x, y] = temp\<close>\<close>

definition np_state :: "thread list \<Rightarrow> nat \<Rightarrow> nat \<Rightarrow> nat \<Rightarrow> nat \<Rightarrow> idx3 kf_mem \<Rightarrow> idx3 kf_mem" where
  "np_state ts dim_x b tz z_idx m =
     m\<lparr>g_x := par_store ts (\<lambda>(x, y). y = 0) (\<lambda>(x, y). (z_idx, x, y))
            (\<lambda>(x, y). dot dim_x
               (\<lambda>j. s_F m (b, dim_x * dim_x * tz + (x * dim_x + j)) * g_x m (z_idx, j, y)))
            (g_x m)\<rparr>"

text \<open>\<^verbatim>\<open>temp = sum_j s_F[xx_idx + (x * dim_x + j)] * P[z_idx, j, y]; s_A[xx_idx + x_key] = temp\<close>\<close>

definition np_FP :: "thread list \<Rightarrow> nat \<Rightarrow> nat \<Rightarrow> nat \<Rightarrow> nat \<Rightarrow> idx3 kf_mem \<Rightarrow> idx3 kf_mem" where
  "np_FP ts dim_x b tz z_idx m =
     m\<lparr>s_A := par_store ts (\<lambda>t. True) (\<lambda>(x, y). (b, dim_x * dim_x * tz + (x * dim_x + y)))
            (\<lambda>(x, y). dot dim_x
               (\<lambda>j. s_F m (b, dim_x * dim_x * tz + (x * dim_x + j)) * g_P m (z_idx, j, y)))
            (s_A m)\<rparr>"

text \<open>
  \<^verbatim>\<open>temp = sum_j s_A[xx_idx + (x * dim_x + j)] * s_F[xx_idx + (y * dim_x + j)];
  P[z_idx, x, y] = alpha_sq * temp + local_Q\<close>, with the registers \<open>alpha_sq\<close> and
  \<open>local_Q\<close> loaded earlier.
\<close>

definition np_store_P ::
  "thread list \<Rightarrow> nat \<Rightarrow> nat \<Rightarrow> nat \<Rightarrow> nat \<Rightarrow> real \<Rightarrow> (thread \<Rightarrow> real) \<Rightarrow> idx3 kf_mem \<Rightarrow> idx3 kf_mem" where
  "np_store_P ts dim_x b tz z_idx alpha_sq local_Q m =
     m\<lparr>g_P := par_store ts (\<lambda>t. True) (\<lambda>(x, y). (z_idx, x, y))
            (\<lambda>(x, y). alpha_sq * dot dim_x
               (\<lambda>j. s_A m (b, dim_x * dim_x * tz + (x * dim_x + j))
                    * s_F m (b, dim_x * dim_x * tz + (y * dim_x + j)))
               + local_Q (x, y))
            (g_P m)\<rparr>"

text \<open>The loop body; \<^verbatim>\<open>cuda.syncthreads()\<close> stands after the first and the third statement.\<close>

definition numba_predict_body ::
  "thread list \<Rightarrow> nat \<Rightarrow> nat \<Rightarrow> nat \<Rightarrow> nat \<Rightarrow> idx3 kf_mem \<Rightarrow> idx3 kf_mem" where
  "numba_predict_body ts dim_x b tz z_idx m0 =
     (let m1 = np_load_F ts dim_x b tz z_idx m0;
          alpha_sq = g_alpha m1 (z_idx, 0, 0);
          local_Q = (\<lambda>(x, y). g_Q m1 (z_idx, x, y))
      in np_store_P ts dim_x b tz z_idx alpha_sq local_Q
           (np_FP ts dim_x b tz z_idx (np_state ts dim_x b tz z_idx m1)))"

text \<open>
  The whole launch: \<open>bdz = blockDim.z\<close>, \<open>gdz = gridDim.z\<close>, \<open>dim_x = P.shape[1]\<close>,
  \<open>n = x_in.shape[0]\<close>. The tile with \<open>z = blockIdx.z * blockDim.z + threadIdx.z\<close> runs
  its grid-stride loop; tiles are taken one after the other (they work on different
  instances and different parts of shared memory).
\<close>

definition numba_predict ::
  "thread list \<Rightarrow> nat \<Rightarrow> nat \<Rightarrow> nat \<Rightarrow> nat \<Rightarrow> idx3 kf_mem \<Rightarrow> idx3 kf_mem" where
  "numba_predict ts bdz gdz dim_x n m =
     fold (\<lambda>z. fold (numba_predict_body ts dim_x (z div bdz) (z mod bdz))
                 (grid_stride z n (bdz * gdz)))
       [0..<bdz * gdz] m"

text \<open>
  \<^verbatim>\<open>_cupy_predict<T, DIM_X, ...>\<close>. A thread is \<open>(tx, ty)\<close>; \<open>ty\<close> is the row. The
  global buffers are flat, indexed as the source writes it. Indices are natural numbers
  here; the source computes them as \<^verbatim>\<open>int\<close>.
\<close>

text \<open>\<^verbatim>\<open>s_F[xx_idx + x_value] = F[tid_z * DIM_X * DIM_X + ty * DIM_X + tx]\<close>\<close>

definition cp_load_F :: "thread list \<Rightarrow> nat \<Rightarrow> nat \<Rightarrow> nat \<Rightarrow> nat \<Rightarrow> nat kf_mem \<Rightarrow> nat kf_mem" where
  "cp_load_F ts DIM_X b tz tid_z m =
     m\<lparr>s_F := par_store ts (\<lambda>t. True) (\<lambda>(tx, ty). (b, DIM_X * DIM_X * tz + (ty * DIM_X + tx)))
            (\<lambda>(tx, ty). g_F m (tid_z * DIM_X * DIM_X + ty * DIM_X + tx)) (s_F m)\<rparr>"

text \<open>\<^verbatim>\<open>if (tx == 0) { temp = sum_j s_F[xx_idx + (ty * DIM_X + j)] * x_in[tid_z * DIM_X * 1 + j * 1 + tx];
  x_in[tid_z * DIM_X * 1 + ty * 1 + tx] = temp; }\<close>\<close>

definition cp_state :: "thread list \<Rightarrow> nat \<Rightarrow> nat \<Rightarrow> nat \<Rightarrow> nat \<Rightarrow> nat kf_mem \<Rightarrow> nat kf_mem" where
  "cp_state ts DIM_X b tz tid_z m =
     m\<lparr>g_x := par_store ts (\<lambda>(tx, ty). tx = 0) (\<lambda>(tx, ty). tid_z * DIM_X * 1 + ty * 1 + tx)
            (\<lambda>(tx, ty). dot DIM_X
               (\<lambda>j. s_F m (b, DIM_X * DIM_X * tz + (ty * DIM_X + j)) * g_x m (tid_z * DIM_X * 1 + j * 1 + tx)))
            (g_x m)\<rparr>"

text \<open>\<^verbatim>\<open>temp = sum_j s_F[xx_idx + (ty * DIM_X + j)] * P[tid_z * DIM_X * DIM_X + j * DIM_X + tx];
  s_A[xx_idx + x_value] = temp\<close>\<close>

definition cp_FP :: "thread list \<Rightarrow> nat \<Rightarrow> nat \<Rightarrow> nat \<Rightarrow> nat \<Rightarrow> nat kf_mem \<Rightarrow> nat kf_mem" where
  "cp_FP ts DIM_X b tz tid_z m =
     m\<lparr>s_A := par_store ts (\<lambda>t. True) (\<lambda>(tx, ty). (b, DIM_X * DIM_X * tz + (ty * DIM_X + tx)))
            (\<lambda>(tx, ty). dot DIM_X
               (\<lambda>j. s_F m (b, DIM_X * DIM_X * tz + (ty * DIM_X + j))
                    * g_P m (tid_z * DIM_X * DIM_X + j * DIM_X + tx)))
            (s_A m)\<rparr>"

text \<open>\<^verbatim>\<open>temp = sum_j s_A[xx_idx + (ty * DIM_X + j)] * s_F[xx_idx + (tx * DIM_X + j)];
  P[tid_z * DIM_X * DIM_X + ty * DIM_X + tx] = alpha2 * temp + localQ\<close>\<close>

definition cp_store_P ::
  "thread list \<Rightarrow> nat \<Rightarrow> nat \<Rightarrow> nat \<Rightarrow> nat \<Rightarrow> real \<Rightarrow> (thread \<Rightarrow> real) \<Rightarrow> nat kf_mem \<Rightarrow> nat kf_mem" where
  "cp_store_P ts DIM_X b tz tid_z alpha2 localQ m =
     m\<lparr>g_P := par_store ts (\<lambda>t. True) (\<lambda>(tx, ty). tid_z * DIM_X * DIM_X + ty * DIM_X + tx)
            (\<lambda>(tx, ty). alpha2 * dot DIM_X
               (\<lambda>j. s_A m (b, DIM_X * DIM_X * tz + (ty * DIM_X + j))
                    * s_F m (b, DIM_X * DIM_X * tz + (tx * DIM_X + j)))
               + localQ (tx, ty))
            (g_P m)\<rparr>"

definition cupy_predict_body ::
  "thread list \<Rightarrow> nat \<Rightarrow> nat \<Rightarrow> nat \<Rightarrow> nat \<Rightarrow> nat kf_mem \<Rightarrow> nat kf_mem" where
  "cupy_predict_body ts DIM_X b tz tid_z m0 =
     (let m1 = cp_load_F ts DIM_X b tz tid_z m0;
          alpha2 = g_alpha m1 tid_z;
          localQ = (\<lambda>(tx, ty). g_Q m1 (tid_z * DIM_X * DIM_X + ty * DIM_X + tx))
      in cp_store_P ts DIM_X b tz tid_z alpha2 localQ
           (cp_FP ts DIM_X b tz tid_z (cp_state ts DIM_X b tz tid_z m1)))"

definition cupy_predict ::
  "thread list \<Rightarrow> nat \<Rightarrow> nat \<Rightarrow> nat \<Rightarrow> nat \<Rightarrow> nat kf_mem \<Rightarrow> nat kf_mem" where
  "cupy_predict ts bdz gdz DIM_X num_points m =
     fold (\<lambda>z. fold (cupy_predict_body ts DIM_X (z div bdz) (z mod bdz))
                 (grid_stride z num_points (bdz * gdz)))
       [0..<bdz * gdz] m"

subsection \<open>The Kalman equations, as the specification writes them\<close>












subsection \<open>Auxiliary notions for the proofs\<close>









subsection \<open>The update kernel, Numba version\<close>

text \<open>
  \<^verbatim>\<open>_numba_update\<close>: \<open>dim_x = P.shape[1]\<close>, \<open>dim_z = R.shape[1]\<close>. A thread is
  \<open>(x, y)\<close>; the offsets of the tile are \<open>xx_idx = dim_x * dim_x * tz\<close>,
  \<open>xz_idx = dim_x * dim_z * tz\<close>, \<open>zz_idx = dim_z * dim_z * tz\<close>, and the keys are
  \<open>x_key = x * dim_x + y\<close>, \<open>z_key = x * dim_z + y\<close>. One definition per store of the
  loop body, in the order of the source.
\<close>

text \<open>\<^verbatim>\<open>s_P[xx_idx + x_key] = P[z_idx, x, y]\<close>\<close>

definition nu_load_P :: "thread list \<Rightarrow> nat \<Rightarrow> nat \<Rightarrow> nat \<Rightarrow> nat \<Rightarrow> nat \<Rightarrow> idx3 kf_mem \<Rightarrow> idx3 kf_mem" where
  "nu_load_P ts dim_x dim_z b tz z_idx m =
     m\<lparr>s_P := par_store ts (\<lambda>t. True) (\<lambda>(x, y). (b, dim_x * dim_x * tz + (x * dim_x + y)))
            (\<lambda>(x, y). g_P m (z_idx, x, y)) (s_P m)\<rparr>"

text \<open>\<^verbatim>\<open>if x < dim_z: s_H[xz_idx + x_key] = H[z_idx, x, y]\<close>\<close>

definition nu_load_H :: "thread list \<Rightarrow> nat \<Rightarrow> nat \<Rightarrow> nat \<Rightarrow> nat \<Rightarrow> nat \<Rightarrow> idx3 kf_mem \<Rightarrow> idx3 kf_mem" where
  "nu_load_H ts dim_x dim_z b tz z_idx m =
     m\<lparr>s_H := par_store ts (\<lambda>(x, y). x < dim_z) (\<lambda>(x, y). (b, dim_x * dim_z * tz + (x * dim_x + y)))
            (\<lambda>(x, y). g_H m (z_idx, x, y)) (s_H m)\<rparr>"

text \<open>\<^verbatim>\<open>if x < dim_z and y < dim_z: s_R[zz_idx + z_key] = R[z_idx, x, y]\<close>\<close>

definition nu_load_R :: "thread list \<Rightarrow> nat \<Rightarrow> nat \<Rightarrow> nat \<Rightarrow> nat \<Rightarrow> nat \<Rightarrow> idx3 kf_mem \<Rightarrow> idx3 kf_mem" where
  "nu_load_R ts dim_x dim_z b tz z_idx m =
     m\<lparr>s_R := par_store ts (\<lambda>(x, y). x < dim_z \<and> y < dim_z)
            (\<lambda>(x, y). (b, dim_z * dim_z * tz + (x * dim_z + y)))
            (\<lambda>(x, y). g_R m (z_idx, x, y)) (s_R m)\<rparr>"

text \<open>
  \<^verbatim>\<open>if x < dim_z and y == 0: temp_z = z_in[z_idx, x, y];
  temp = sum_j s_H[xz_idx + (x * dim_x + j)] * x_in[z_idx, j, y];
  s_y[(dim_z * tz) + x] = temp_z - temp\<close>
\<close>

definition nu_innov :: "thread list \<Rightarrow> nat \<Rightarrow> nat \<Rightarrow> nat \<Rightarrow> nat \<Rightarrow> nat \<Rightarrow> idx3 kf_mem \<Rightarrow> idx3 kf_mem" where
  "nu_innov ts dim_x dim_z b tz z_idx m =
     m\<lparr>s_y := par_store ts (\<lambda>(x, y). x < dim_z \<and> y = 0) (\<lambda>(x, y). (b, dim_z * tz + x))
            (\<lambda>(x, y). g_z m (z_idx, x, y)
               - dot dim_x (\<lambda>j. s_H m (b, dim_x * dim_z * tz + (x * dim_x + j)) * g_x m (z_idx, j, y)))
            (s_y m)\<rparr>"

text \<open>
  \<^verbatim>\<open>if y < dim_z: temp = sum_j s_P[xx_idx + (x * dim_x + j)] * s_H[xz_idx + (y * dim_x + j)];
  s_A[xx_idx + z_key] = temp\<close>
\<close>

definition nu_PHT :: "thread list \<Rightarrow> nat \<Rightarrow> nat \<Rightarrow> nat \<Rightarrow> nat \<Rightarrow> nat \<Rightarrow> idx3 kf_mem \<Rightarrow> idx3 kf_mem" where
  "nu_PHT ts dim_x dim_z b tz z_idx m =
     m\<lparr>s_A := par_store ts (\<lambda>(x, y). y < dim_z) (\<lambda>(x, y). (b, dim_x * dim_x * tz + (x * dim_z + y)))
            (\<lambda>(x, y). dot dim_x
               (\<lambda>j. s_P m (b, dim_x * dim_x * tz + (x * dim_x + j))
                    * s_H m (b, dim_x * dim_z * tz + (y * dim_x + j))))
            (s_A m)\<rparr>"

text \<open>
  \<^verbatim>\<open>if x < dim_z and y < dim_z:
  temp = sum_j s_H[xz_idx + (x * dim_x + j)] * s_A[xx_idx + (j * dim_z + y)];
  s_B[xx_idx + z_key] = temp + s_R[zz_idx + z_key]\<close>
\<close>

definition nu_S :: "thread list \<Rightarrow> nat \<Rightarrow> nat \<Rightarrow> nat \<Rightarrow> nat \<Rightarrow> nat \<Rightarrow> idx3 kf_mem \<Rightarrow> idx3 kf_mem" where
  "nu_S ts dim_x dim_z b tz z_idx m =
     m\<lparr>s_B := par_store ts (\<lambda>(x, y). x < dim_z \<and> y < dim_z)
            (\<lambda>(x, y). (b, dim_x * dim_x * tz + (x * dim_z + y)))
            (\<lambda>(x, y). dot dim_x
               (\<lambda>j. s_H m (b, dim_x * dim_z * tz + (x * dim_x + j))
                    * s_A m (b, dim_x * dim_x * tz + (j * dim_z + y)))
               + s_R m (b, dim_z * dim_z * tz + (x * dim_z + y)))
            (s_B m)\<rparr>"

text \<open>
  The inverse, "hardcoded for 2x2" as the source says:
  \<^verbatim>\<open>if x < dim_z and y < dim_z: sign = 1 if (x + y) % 2 == 0 else -1;
  sign_det = sign * (s_B[xx_idx + (0 * dim_z + 0)] * s_B[xx_idx + (1 * dim_z + 1)]
                     - s_B[xx_idx + (1 * dim_z + 0)] * s_B[xx_idx + (0 * dim_z + 1)]);
  temp = s_B[xx_idx + ((dim_z - 1 - x) * dim_z + (dim_z - 1 - y))] / sign_det;
  s_B[xx_idx + z_key] = temp\<close>.
  All threads read \<open>s_B\<close> before any of them stores. (Division is division of reals; the
  theorems below divide by a non-zero determinant only.)
\<close>

definition nu_inverse :: "thread list \<Rightarrow> nat \<Rightarrow> nat \<Rightarrow> nat \<Rightarrow> nat \<Rightarrow> nat \<Rightarrow> idx3 kf_mem \<Rightarrow> idx3 kf_mem" where
  "nu_inverse ts dim_x dim_z b tz z_idx m =
     m\<lparr>s_B := par_store ts (\<lambda>(x, y). x < dim_z \<and> y < dim_z)
            (\<lambda>(x, y). (b, dim_x * dim_x * tz + (x * dim_z + y)))
            (\<lambda>(x, y).
               (let sign = (if (x + y) mod 2 = 0 then 1 else - 1);
                    sign_det = sign *
                      (s_B m (b, dim_x * dim_x * tz + (0 * dim_z + 0))
                         * s_B m (b, dim_x * dim_x * tz + (1 * dim_z + 1))
                       - s_B m (b, dim_x * dim_x * tz + (1 * dim_z + 0))
                         * s_B m (b, dim_x * dim_x * tz + (0 * dim_z + 1)))
                in s_B m (b, dim_x * dim_x * tz + ((dim_z - 1 - x) * dim_z + (dim_z - 1 - y)))
                     / sign_det))
            (s_B m)\<rparr>"

text \<open>
  The Kalman gain, gated by \<open>y < 2\<close>:
  \<^verbatim>\<open>if y < 2: temp = sum_j s_A[xx_idx + (x * dim_z + j)] * s_B[xx_idx + (y * dim_z + j)];
  s_K[xz_idx + z_key] = temp\<close> (\<open>j\<close> in \<open>range(dim_z)\<close>)
\<close>

definition nu_gain :: "thread list \<Rightarrow> nat \<Rightarrow> nat \<Rightarrow> nat \<Rightarrow> nat \<Rightarrow> nat \<Rightarrow> idx3 kf_mem \<Rightarrow> idx3 kf_mem" where
  "nu_gain ts dim_x dim_z b tz z_idx m =
     m\<lparr>s_K := par_store ts (\<lambda>(x, y). y < 2) (\<lambda>(x, y). (b, dim_x * dim_z * tz + (x * dim_z + y)))
            (\<lambda>(x, y). dot dim_z
               (\<lambda>j. s_A m (b, dim_x * dim_x * tz + (x * dim_z + j))
                    * s_B m (b, dim_x * dim_x * tz + (y * dim_z + j))))
            (s_K m)\<rparr>"

text \<open>
  \<^verbatim>\<open>if y == 0: temp = sum_j s_K[xz_idx + (x * dim_z + j)] * s_y[(dim_z * tz) + j];
  x_in[z_idx, x, y] += temp\<close>
\<close>

definition nu_state :: "thread list \<Rightarrow> nat \<Rightarrow> nat \<Rightarrow> nat \<Rightarrow> nat \<Rightarrow> nat \<Rightarrow> idx3 kf_mem \<Rightarrow> idx3 kf_mem" where
  "nu_state ts dim_x dim_z b tz z_idx m =
     m\<lparr>g_x := par_store ts (\<lambda>(x, y). y = 0) (\<lambda>(x, y). (z_idx, x, y))
            (\<lambda>(x, y). g_x m (z_idx, x, y)
               + dot dim_z (\<lambda>j. s_K m (b, dim_x * dim_z * tz + (x * dim_z + j)) * s_y m (b, dim_z * tz + j)))
            (g_x m)\<rparr>"

text \<open>
  \<^verbatim>\<open>temp = sum_j s_K[xz_idx + (x * dim_z + j)] * s_H[xz_idx + (j * dim_x + y)];
  s_A[xx_idx + x_key] = (1.0 if x == y else 0.0) - temp\<close>
\<close>

definition nu_IKH :: "thread list \<Rightarrow> nat \<Rightarrow> nat \<Rightarrow> nat \<Rightarrow> nat \<Rightarrow> nat \<Rightarrow> idx3 kf_mem \<Rightarrow> idx3 kf_mem" where
  "nu_IKH ts dim_x dim_z b tz z_idx m =
     m\<lparr>s_A := par_store ts (\<lambda>t. True) (\<lambda>(x, y). (b, dim_x * dim_x * tz + (x * dim_x + y)))
            (\<lambda>(x, y). (if x = y then 1 else 0)
               - dot dim_z (\<lambda>j. s_K m (b, dim_x * dim_z * tz + (x * dim_z + j))
                               * s_H m (b, dim_x * dim_z * tz + (j * dim_x + y))))
            (s_A m)\<rparr>"

text \<open>
  \<^verbatim>\<open>temp = sum_j s_A[xx_idx + (x * dim_x + j)] * s_P[xx_idx + (j * dim_x + y)];
  s_B[xx_idx + x_key] = temp\<close>
\<close>

definition nu_IKHP :: "thread list \<Rightarrow> nat \<Rightarrow> nat \<Rightarrow> nat \<Rightarrow> nat \<Rightarrow> nat \<Rightarrow> idx3 kf_mem \<Rightarrow> idx3 kf_mem" where
  "nu_IKHP ts dim_x dim_z b tz z_idx m =
     m\<lparr>s_B := par_store ts (\<lambda>t. True) (\<lambda>(x, y). (b, dim_x * dim_x * tz + (x * dim_x + y)))
            (\<lambda>(x, y). dot dim_x
               (\<lambda>j. s_A m (b, dim_x * dim_x * tz + (x * dim_x + j))
                    * s_P m (b, dim_x * dim_x * tz + (j * dim_x + y))))
            (s_B m)\<rparr>"

text \<open>
  The register \<open>temp\<close> of the last phase, computed before \<open>s_A\<close> is overwritten:
  \<^verbatim>\<open>temp = sum_j s_B[xx_idx + (x * dim_x + j)] * s_A[xx_idx + (y * dim_x + j)]\<close>
\<close>

definition nu_temp :: "nat \<Rightarrow> nat \<Rightarrow> nat \<Rightarrow> idx3 kf_mem \<Rightarrow> thread \<Rightarrow> real" where
  "nu_temp dim_x b tz m =
     (\<lambda>(x, y). dot dim_x
        (\<lambda>j. s_B m (b, dim_x * dim_x * tz + (x * dim_x + j))
             * s_A m (b, dim_x * dim_x * tz + (y * dim_x + j))))"

text \<open>
  \<^verbatim>\<open>temp2 = 0.0; if y < dim_z: temp2 = sum_j s_K[xz_idx + (x * dim_z + j)] * s_R[zz_idx + (j * dim_z + y)];
  s_A[xx_idx + z_key] = temp2\<close>. The store is outside the \<^verbatim>\<open>if\<close>: every thread of the
  tile stores, the threads with \<open>y \<ge> dim_z\<close> store \<open>0\<close>.
\<close>

definition nu_KR :: "thread list \<Rightarrow> nat \<Rightarrow> nat \<Rightarrow> nat \<Rightarrow> nat \<Rightarrow> nat \<Rightarrow> idx3 kf_mem \<Rightarrow> idx3 kf_mem" where
  "nu_KR ts dim_x dim_z b tz z_idx m =
     m\<lparr>s_A := par_store ts (\<lambda>t. True) (\<lambda>(x, y). (b, dim_x * dim_x * tz + (x * dim_z + y)))
            (\<lambda>(x, y). if y < dim_z
               then dot dim_z (\<lambda>j. s_K m (b, dim_x * dim_z * tz + (x * dim_z + j))
                                   * s_R m (b, dim_z * dim_z * tz + (j * dim_z + y)))
               else 0)
            (s_A m)\<rparr>"

text \<open>
  \<^verbatim>\<open>temp2 = sum_j s_A[xx_idx + (x * dim_z + j)] * s_K[xz_idx + (y * dim_z + j)];
  P[z_idx, x, y] = temp + temp2\<close>
\<close>

definition nu_store_P ::
  "thread list \<Rightarrow> nat \<Rightarrow> nat \<Rightarrow> nat \<Rightarrow> nat \<Rightarrow> nat \<Rightarrow> (thread \<Rightarrow> real) \<Rightarrow> idx3 kf_mem \<Rightarrow> idx3 kf_mem" where
  "nu_store_P ts dim_x dim_z b tz z_idx temp m =
     m\<lparr>g_P := par_store ts (\<lambda>t. True) (\<lambda>(x, y). (z_idx, x, y))
            (\<lambda>(x, y). temp (x, y)
               + dot dim_z (\<lambda>j. s_A m (b, dim_x * dim_x * tz + (x * dim_z + j))
                               * s_K m (b, dim_x * dim_z * tz + (y * dim_z + j))))
            (g_P m)\<rparr>"

text \<open>
  The loop body. \<^verbatim>\<open>cuda.syncthreads()\<close> stands after the loads, after \<open>nu_PHT\<close>,
  \<open>nu_S\<close>, \<open>nu_inverse\<close>, \<open>nu_gain\<close>, \<open>nu_IKH\<close>, \<open>nu_IKHP\<close> and \<open>nu_KR\<close>.
\<close>

definition numba_update_body ::
  "thread list \<Rightarrow> nat \<Rightarrow> nat \<Rightarrow> nat \<Rightarrow> nat \<Rightarrow> nat \<Rightarrow> idx3 kf_mem \<Rightarrow> idx3 kf_mem" where
  "numba_update_body ts dim_x dim_z b tz z_idx m0 =
     (let m11 = nu_IKHP ts dim_x dim_z b tz z_idx (nu_IKH ts dim_x dim_z b tz z_idx
                 (nu_state ts dim_x dim_z b tz z_idx (nu_gain ts dim_x dim_z b tz z_idx
                 (nu_inverse ts dim_x dim_z b tz z_idx (nu_S ts dim_x dim_z b tz z_idx
                 (nu_PHT ts dim_x dim_z b tz z_idx (nu_innov ts dim_x dim_z b tz z_idx
                 (nu_load_R ts dim_x dim_z b tz z_idx (nu_load_H ts dim_x dim_z b tz z_idx
                 (nu_load_P ts dim_x dim_z b tz z_idx m0))))))))));
          temp = nu_temp dim_x b tz m11
      in nu_store_P ts dim_x dim_z b tz z_idx temp (nu_KR ts dim_x dim_z b tz z_idx m11))"

definition numba_update ::
  "thread list \<Rightarrow> nat \<Rightarrow> nat \<Rightarrow> nat \<Rightarrow> nat \<Rightarrow> nat \<Rightarrow> idx3 kf_mem \<Rightarrow> idx3 kf_mem" where
  "numba_update ts bdz gdz dim_x dim_z n m =
     fold (\<lambda>z. fold (numba_update_body ts dim_x dim_z (z div bdz) (z mod bdz))
                 (grid_stride z n (bdz * gdz)))
       [0..<bdz * gdz] m"

subsection \<open>The update kernel, CuPy version\<close>

text \<open>
  The device function \<^verbatim>\<open>inverse<T, DIM_Z>(idx, tx, ty, s_B)\<close>: what thread
  \<open>(tx, ty)\<close> gets back. \<^verbatim>\<open>T determinant {}; T temp {};\<close> start at zero; for a
  \<open>DIM_Z\<close> other than 2 and 3 the function sets \<^verbatim>\<open>determinant = sign\<close> and returns
  \<open>temp\<close> as it is. The \<^verbatim>\<open>printf\<close> calls of the 3x3 branch change no memory. \<open>sB\<close> is
  the shared array of the block.
\<close>

definition inverse_dev :: "nat \<Rightarrow> nat \<Rightarrow> nat \<Rightarrow> nat \<Rightarrow> (nat \<Rightarrow> real) \<Rightarrow> real" where
  "inverse_dev DIM_Z idx tx ty sB =
     (let sign = (if (tx + ty) mod 2 = 0 then 1 else - 1 :: real)
      in if DIM_Z = 2 then
           (let determinant = sB (idx + (0 * DIM_Z + 0)) * sB (idx + (1 * DIM_Z + 1))
                                - sB (idx + (1 * DIM_Z + 0)) * sB (idx + (0 * DIM_Z + 1));
                temp = sB (idx + (((tx + 1) mod DIM_Z) * DIM_Z + ((ty + 1) mod DIM_Z)))
            in temp / (determinant * sign))
         else if DIM_Z = 3 then
           (let determinant = dot DIM_Z (\<lambda>i.
                  sB (idx + (0 * DIM_Z + i))
                    * (sB (idx + (1 * DIM_Z + ((i + 1) mod DIM_Z))) * sB (idx + (2 * DIM_Z + ((i + 2) mod DIM_Z)))
                       - sB (idx + (1 * DIM_Z + ((i + 2) mod DIM_Z))) * sB (idx + (2 * DIM_Z + ((i + 1) mod DIM_Z)))));
                temp = sB (idx + (((tx + 1) mod DIM_Z) * DIM_Z + ((ty + 1) mod DIM_Z)))
                         * sB (idx + (((tx + 2) mod DIM_Z) * DIM_Z + ((ty + 2) mod DIM_Z)))
                       - sB (idx + (((tx + 1) mod DIM_Z) * DIM_Z + ((ty + 2) mod DIM_Z)))
                         * sB (idx + (((tx + 2) mod DIM_Z) * DIM_Z + ((ty + 1) mod DIM_Z)))
            in temp / (determinant * sign))
         else 0)"

text \<open>
  \<^verbatim>\<open>_cupy_update<T, DIM_X, DIM_Z, ...>\<close>. A thread is \<open>(tx, ty)\<close>, \<open>ty\<close> the row;
  \<open>x_value = ty * DIM_X + tx\<close>, \<open>z_value = ty * DIM_Z + tx\<close>; \<open>xx_idx\<close>, \<open>xz_idx\<close>,
  \<open>zz_idx\<close> as in the Numba kernel (with \<open>threadIdx.z = tz\<close>).
\<close>

text \<open>\<^verbatim>\<open>s_P[xx_idx + x_value] = P[tid_z * DIM_X * DIM_X + ty * DIM_X + tx]\<close>\<close>

definition cu_load_P :: "thread list \<Rightarrow> nat \<Rightarrow> nat \<Rightarrow> nat \<Rightarrow> nat \<Rightarrow> nat \<Rightarrow> nat kf_mem \<Rightarrow> nat kf_mem" where
  "cu_load_P ts DIM_X DIM_Z b tz tid_z m =
     m\<lparr>s_P := par_store ts (\<lambda>t. True) (\<lambda>(tx, ty). (b, DIM_X * DIM_X * tz + (ty * DIM_X + tx)))
            (\<lambda>(tx, ty). g_P m (tid_z * DIM_X * DIM_X + ty * DIM_X + tx)) (s_P m)\<rparr>"

text \<open>\<^verbatim>\<open>if (ty < DIM_Z) s_H[xz_idx + x_value] = H[tid_z * DIM_Z * DIM_X + ty * DIM_X + tx]\<close>\<close>

definition cu_load_H :: "thread list \<Rightarrow> nat \<Rightarrow> nat \<Rightarrow> nat \<Rightarrow> nat \<Rightarrow> nat \<Rightarrow> nat kf_mem \<Rightarrow> nat kf_mem" where
  "cu_load_H ts DIM_X DIM_Z b tz tid_z m =
     m\<lparr>s_H := par_store ts (\<lambda>(tx, ty). ty < DIM_Z) (\<lambda>(tx, ty). (b, DIM_X * DIM_Z * tz + (ty * DIM_X + tx)))
            (\<lambda>(tx, ty). g_H m (tid_z * DIM_Z * DIM_X + ty * DIM_X + tx)) (s_H m)\<rparr>"

text \<open>\<^verbatim>\<open>if ((ty < DIM_Z) && (tx < DIM_Z)) s_R[zz_idx + z_value] = R[tid_z * DIM_Z * DIM_Z + ty * DIM_Z + tx]\<close>\<close>

definition cu_load_R :: "thread list \<Rightarrow> nat \<Rightarrow> nat \<Rightarrow> nat \<Rightarrow> nat \<Rightarrow> nat \<Rightarrow> nat kf_mem \<Rightarrow> nat kf_mem" where
  "cu_load_R ts DIM_X DIM_Z b tz tid_z m =
     m\<lparr>s_R := par_store ts (\<lambda>(tx, ty). ty < DIM_Z \<and> tx < DIM_Z)
            (\<lambda>(tx, ty). (b, DIM_Z * DIM_Z * tz + (ty * DIM_Z + tx)))
            (\<lambda>(tx, ty). g_R m (tid_z * DIM_Z * DIM_Z + ty * DIM_Z + tx)) (s_R m)\<rparr>"

text \<open>
  \<^verbatim>\<open>if ((tx == 0) && (ty < DIM_Z)) { temp_z = z_in[tid_z * DIM_Z * 1 + ty * 1 + tx];
  temp = sum_j s_H[xz_idx + (ty * DIM_X + j)] * x_in[tid_z * DIM_X * 1 + j * 1 + tx];
  s_y[threadIdx.z * DIM_Z * 1 + ty * 1 + tx] = temp_z - temp; }\<close>
\<close>

definition cu_innov :: "thread list \<Rightarrow> nat \<Rightarrow> nat \<Rightarrow> nat \<Rightarrow> nat \<Rightarrow> nat \<Rightarrow> nat kf_mem \<Rightarrow> nat kf_mem" where
  "cu_innov ts DIM_X DIM_Z b tz tid_z m =
     m\<lparr>s_y := par_store ts (\<lambda>(tx, ty). tx = 0 \<and> ty < DIM_Z) (\<lambda>(tx, ty). (b, tz * DIM_Z * 1 + ty * 1 + tx))
            (\<lambda>(tx, ty). g_z m (tid_z * DIM_Z * 1 + ty * 1 + tx)
               - dot DIM_X (\<lambda>j. s_H m (b, DIM_X * DIM_Z * tz + (ty * DIM_X + j))
                               * g_x m (tid_z * DIM_X * 1 + j * 1 + tx)))
            (s_y m)\<rparr>"

text \<open>
  \<^verbatim>\<open>if (tx < DIM_Z) { temp = sum_j s_P[xx_idx + (ty * DIM_X + j)] * s_H[xz_idx + (tx * DIM_X + j)];
  s_A[xx_idx + z_value] = temp; }\<close>
\<close>

definition cu_PHT :: "thread list \<Rightarrow> nat \<Rightarrow> nat \<Rightarrow> nat \<Rightarrow> nat \<Rightarrow> nat \<Rightarrow> nat kf_mem \<Rightarrow> nat kf_mem" where
  "cu_PHT ts DIM_X DIM_Z b tz tid_z m =
     m\<lparr>s_A := par_store ts (\<lambda>(tx, ty). tx < DIM_Z) (\<lambda>(tx, ty). (b, DIM_X * DIM_X * tz + (ty * DIM_Z + tx)))
            (\<lambda>(tx, ty). dot DIM_X
               (\<lambda>j. s_P m (b, DIM_X * DIM_X * tz + (ty * DIM_X + j))
                    * s_H m (b, DIM_X * DIM_Z * tz + (tx * DIM_X + j))))
            (s_A m)\<rparr>"

text \<open>
  \<^verbatim>\<open>if ((tx < DIM_Z) && (ty < DIM_Z)) {
  temp = sum_j s_H[xz_idx + (ty * DIM_X + j)] * s_A[xx_idx + (j * DIM_Z + tx)];
  s_B[xx_idx + z_value] = temp + s_R[zz_idx + z_value]; }\<close>
\<close>

definition cu_S :: "thread list \<Rightarrow> nat \<Rightarrow> nat \<Rightarrow> nat \<Rightarrow> nat \<Rightarrow> nat \<Rightarrow> nat kf_mem \<Rightarrow> nat kf_mem" where
  "cu_S ts DIM_X DIM_Z b tz tid_z m =
     m\<lparr>s_B := par_store ts (\<lambda>(tx, ty). tx < DIM_Z \<and> ty < DIM_Z)
            (\<lambda>(tx, ty). (b, DIM_X * DIM_X * tz + (ty * DIM_Z + tx)))
            (\<lambda>(tx, ty). dot DIM_X
               (\<lambda>j. s_H m (b, DIM_X * DIM_Z * tz + (ty * DIM_X + j))
                    * s_A m (b, DIM_X * DIM_X * tz + (j * DIM_Z + tx)))
               + s_R m (b, DIM_Z * DIM_Z * tz + (ty * DIM_Z + tx)))
            (s_B m)\<rparr>"

text \<open>
  \<^verbatim>\<open>if ((tx < DIM_Z) && (ty < DIM_Z)) { temp = inverse<T, DIM_Z>(xx_idx, tx, ty, s_B);
  s_B[xx_idx + z_value] = temp; }\<close>
\<close>

definition cu_inverse :: "thread list \<Rightarrow> nat \<Rightarrow> nat \<Rightarrow> nat \<Rightarrow> nat \<Rightarrow> nat \<Rightarrow> nat kf_mem \<Rightarrow> nat kf_mem" where
  "cu_inverse ts DIM_X DIM_Z b tz tid_z m =
     m\<lparr>s_B := par_store ts (\<lambda>(tx, ty). tx < DIM_Z \<and> ty < DIM_Z)
            (\<lambda>(tx, ty). (b, DIM_X * DIM_X * tz + (ty * DIM_Z + tx)))
            (\<lambda>(tx, ty). inverse_dev DIM_Z (DIM_X * DIM_X * tz) tx ty (\<lambda>k. s_B m (b, k)))
            (s_B m)\<rparr>"

text \<open>
  The Kalman gain, gated by \<open>tx < 2\<close>:
  \<^verbatim>\<open>if (tx < 2) { temp = sum_j s_A[xx_idx + (ty * DIM_Z + j)] * s_B[xx_idx + (tx * DIM_Z + j)];
  s_K[xz_idx + z_value] = temp; }\<close> (\<open>j < DIM_Z\<close>)
\<close>

definition cu_gain :: "thread list \<Rightarrow> nat \<Rightarrow> nat \<Rightarrow> nat \<Rightarrow> nat \<Rightarrow> nat \<Rightarrow> nat kf_mem \<Rightarrow> nat kf_mem" where
  "cu_gain ts DIM_X DIM_Z b tz tid_z m =
     m\<lparr>s_K := par_store ts (\<lambda>(tx, ty). tx < 2) (\<lambda>(tx, ty). (b, DIM_X * DIM_Z * tz + (ty * DIM_Z + tx)))
            (\<lambda>(tx, ty). dot DIM_Z
               (\<lambda>j. s_A m (b, DIM_X * DIM_X * tz + (ty * DIM_Z + j))
                    * s_B m (b, DIM_X * DIM_X * tz + (tx * DIM_Z + j))))
            (s_K m)\<rparr>"

text \<open>
  \<^verbatim>\<open>if (tx == 0) { temp = sum_j s_K[xz_idx + (ty * DIM_Z + j)] * s_y[threadIdx.z * DIM_Z + j];
  x_in[tid_z * DIM_X * 1 + ty * 1 + tx] += temp; }\<close>
\<close>

definition cu_state :: "thread list \<Rightarrow> nat \<Rightarrow> nat \<Rightarrow> nat \<Rightarrow> nat \<Rightarrow> nat \<Rightarrow> nat kf_mem \<Rightarrow> nat kf_mem" where
  "cu_state ts DIM_X DIM_Z b tz tid_z m =
     m\<lparr>g_x := par_store ts (\<lambda>(tx, ty). tx = 0) (\<lambda>(tx, ty). tid_z * DIM_X * 1 + ty * 1 + tx)
            (\<lambda>(tx, ty). g_x m (tid_z * DIM_X * 1 + ty * 1 + tx)
               + dot DIM_Z (\<lambda>j. s_K m (b, DIM_X * DIM_Z * tz + (ty * DIM_Z + j)) * s_y m (b, tz * DIM_Z + j)))
            (g_x m)\<rparr>"

text \<open>
  \<^verbatim>\<open>temp = sum_j s_K[xz_idx + (ty * DIM_Z + j)] * s_H[xz_idx + (j * DIM_X + tx)];
  s_A[xx_idx + x_value] = ((tx == ty) ? 1 : 0) - temp\<close>
\<close>

definition cu_IKH :: "thread list \<Rightarrow> nat \<Rightarrow> nat \<Rightarrow> nat \<Rightarrow> nat \<Rightarrow> nat \<Rightarrow> nat kf_mem \<Rightarrow> nat kf_mem" where
  "cu_IKH ts DIM_X DIM_Z b tz tid_z m =
     m\<lparr>s_A := par_store ts (\<lambda>t. True) (\<lambda>(tx, ty). (b, DIM_X * DIM_X * tz + (ty * DIM_X + tx)))
            (\<lambda>(tx, ty). (if tx = ty then 1 else 0)
               - dot DIM_Z (\<lambda>j. s_K m (b, DIM_X * DIM_Z * tz + (ty * DIM_Z + j))
                               * s_H m (b, DIM_X * DIM_Z * tz + (j * DIM_X + tx))))
            (s_A m)\<rparr>"

text \<open>
  \<^verbatim>\<open>temp = sum_j s_A[xx_idx + (ty * DIM_X + j)] * s_P[xx_idx + (j * DIM_X + tx)];
  s_B[xx_idx + x_value] = temp\<close>
\<close>

definition cu_IKHP :: "thread list \<Rightarrow> nat \<Rightarrow> nat \<Rightarrow> nat \<Rightarrow> nat \<Rightarrow> nat \<Rightarrow> nat kf_mem \<Rightarrow> nat kf_mem" where
  "cu_IKHP ts DIM_X DIM_Z b tz tid_z m =
     m\<lparr>s_B := par_store ts (\<lambda>t. True) (\<lambda>(tx, ty). (b, DIM_X * DIM_X * tz + (ty * DIM_X + tx)))
            (\<lambda>(tx, ty). dot DIM_X
               (\<lambda>j. s_A m (b, DIM_X * DIM_X * tz + (ty * DIM_X + j))
                    * s_P m (b, DIM_X * DIM_X * tz + (j * DIM_X + tx))))
            (s_B m)\<rparr>"

text \<open>
  \<^verbatim>\<open>temp = sum_j s_B[xx_idx + (ty * DIM_X + j)] * s_A[xx_idx + (tx * DIM_X + j)];
  s_P[xx_idx + (ty * DIM_X + tx)] = temp\<close>
\<close>

definition cu_IKHPT :: "thread list \<Rightarrow> nat \<Rightarrow> nat \<Rightarrow> nat \<Rightarrow> nat \<Rightarrow> nat \<Rightarrow> nat kf_mem \<Rightarrow> nat kf_mem" where
  "cu_IKHPT ts DIM_X DIM_Z b tz tid_z m =
     m\<lparr>s_P := par_store ts (\<lambda>t. True) (\<lambda>(tx, ty). (b, DIM_X * DIM_X * tz + (ty * DIM_X + tx)))
            (\<lambda>(tx, ty). dot DIM_X
               (\<lambda>j. s_B m (b, DIM_X * DIM_X * tz + (ty * DIM_X + j))
                    * s_A m (b, DIM_X * DIM_X * tz + (tx * DIM_X + j))))
            (s_P m)\<rparr>"

text \<open>
  \<^verbatim>\<open>temp = 0.0f; if (tx < DIM_Z) { temp = sum_j s_K[xz_idx + (ty * DIM_Z + j)] * s_R[zz_idx + (j * DIM_Z + tx)]; }
  s_A[xx_idx + z_value] = temp\<close>. As in the Numba kernel the store is outside the
  \<^verbatim>\<open>if\<close>.
\<close>

definition cu_KR :: "thread list \<Rightarrow> nat \<Rightarrow> nat \<Rightarrow> nat \<Rightarrow> nat \<Rightarrow> nat \<Rightarrow> nat kf_mem \<Rightarrow> nat kf_mem" where
  "cu_KR ts DIM_X DIM_Z b tz tid_z m =
     m\<lparr>s_A := par_store ts (\<lambda>t. True) (\<lambda>(tx, ty). (b, DIM_X * DIM_X * tz + (ty * DIM_Z + tx)))
            (\<lambda>(tx, ty). if tx < DIM_Z
               then dot DIM_Z (\<lambda>j. s_K m (b, DIM_X * DIM_Z * tz + (ty * DIM_Z + j))
                                   * s_R m (b, DIM_Z * DIM_Z * tz + (j * DIM_Z + tx)))
               else 0)
            (s_A m)\<rparr>"

text \<open>
  \<^verbatim>\<open>temp = sum_j s_A[xx_idx + (ty * DIM_Z + j)] * s_K[xz_idx + (tx * DIM_Z + j)];
  P[tid_z * DIM_X * DIM_X + ty * DIM_X + tx] = s_P[xx_idx + (ty * DIM_X + tx)] + temp\<close>
\<close>

definition cu_store_P :: "thread list \<Rightarrow> nat \<Rightarrow> nat \<Rightarrow> nat \<Rightarrow> nat \<Rightarrow> nat \<Rightarrow> nat kf_mem \<Rightarrow> nat kf_mem" where
  "cu_store_P ts DIM_X DIM_Z b tz tid_z m =
     m\<lparr>g_P := par_store ts (\<lambda>t. True) (\<lambda>(tx, ty). tid_z * DIM_X * DIM_X + ty * DIM_X + tx)
            (\<lambda>(tx, ty). s_P m (b, DIM_X * DIM_X * tz + (ty * DIM_X + tx))
               + dot DIM_Z (\<lambda>j. s_A m (b, DIM_X * DIM_X * tz + (ty * DIM_Z + j))
                               * s_K m (b, DIM_X * DIM_Z * tz + (tx * DIM_Z + j))))
            (g_P m)\<rparr>"

text \<open>
  The loop body. \<^verbatim>\<open>__syncthreads()\<close> stands after the loads, after \<open>cu_PHT\<close>, \<open>cu_S\<close>,
  \<open>cu_inverse\<close>, \<open>cu_gain\<close>, \<open>cu_IKH\<close>, \<open>cu_IKHP\<close> and \<open>cu_KR\<close>.
\<close>

definition cupy_update_body ::
  "thread list \<Rightarrow> nat \<Rightarrow> nat \<Rightarrow> nat \<Rightarrow> nat \<Rightarrow> nat \<Rightarrow> nat kf_mem \<Rightarrow> nat kf_mem" where
  "cupy_update_body ts DIM_X DIM_Z b tz tid_z m0 =
     cu_store_P ts DIM_X DIM_Z b tz tid_z (cu_KR ts DIM_X DIM_Z b tz tid_z
       (cu_IKHPT ts DIM_X DIM_Z b tz tid_z (cu_IKHP ts DIM_X DIM_Z b tz tid_z
       (cu_IKH ts DIM_X DIM_Z b tz tid_z (cu_state ts DIM_X DIM_Z b tz tid_z
       (cu_gain ts DIM_X DIM_Z b tz tid_z (cu_inverse ts DIM_X DIM_Z b tz tid_z
       (cu_S ts DIM_X DIM_Z b tz tid_z (cu_PHT ts DIM_X DIM_Z b tz tid_z
       (cu_innov ts DIM_X DIM_Z b tz tid_z (cu_load_R ts DIM_X DIM_Z b tz tid_z
       (cu_load_H ts DIM_X DIM_Z b tz tid_z (cu_load_P ts DIM_X DIM_Z b tz tid_z m0)))))))))))))"

definition cupy_update ::
  "thread list \<Rightarrow> nat \<Rightarrow> nat \<Rightarrow> nat \<Rightarrow> nat \<Rightarrow> nat \<Rightarrow> nat kf_mem \<Rightarrow> nat kf_mem" where
  "cupy_update ts bdz gdz DIM_X DIM_Z num_points m =
     fold (\<lambda>z. fold (cupy_update_body ts DIM_X DIM_Z (z div bdz) (z mod bdz))
                 (grid_stride z num_points (bdz * gdz)))
       [0..<bdz * gdz] m"

subsection \<open>The update equations, as the specification writes them\<close>



























section \<open>Basic facts\<close>





lemma dot_cong: "(\<And>j. j < n \<Longrightarrow> f j = g j) \<Longrightarrow> dot n f = dot n g"
  by (induction n) auto








lemma numba_predict_body_frame:
  "g_alpha (numba_predict_body ts dim_x b tz i m) = g_alpha m"
  "g_F (numba_predict_body ts dim_x b tz i m) = g_F m"
  "g_Q (numba_predict_body ts dim_x b tz i m) = g_Q m"
  "g_z (numba_predict_body ts dim_x b tz i m) = g_z m"
  "g_H (numba_predict_body ts dim_x b tz i m) = g_H m"
  "g_R (numba_predict_body ts dim_x b tz i m) = g_R m"
  by (simp_all add: numba_predict_body_def Let_def np_store_P_def np_FP_def np_state_def np_load_F_def)





























lemma cupy_predict_body_frame:
  "g_alpha (cupy_predict_body ts d b tz i m) = g_alpha m"
  "g_F (cupy_predict_body ts d b tz i m) = g_F m"
  "g_Q (cupy_predict_body ts d b tz i m) = g_Q m"
  "g_z (cupy_predict_body ts d b tz i m) = g_z m"
  "g_H (cupy_predict_body ts d b tz i m) = g_H m"
  "g_R (cupy_predict_body ts d b tz i m) = g_R m"
  by (simp_all add: cupy_predict_body_def Let_def cp_store_P_def cp_FP_def cp_state_def cp_load_F_def)















text \<open>Each statement changes one array only.\<close>

lemma nu_load_P_frame [simp]:
  "g_alpha (nu_load_P ts d dz b tz i m) = g_alpha m"
  "g_x (nu_load_P ts d dz b tz i m) = g_x m"
  "g_z (nu_load_P ts d dz b tz i m) = g_z m"
  "g_F (nu_load_P ts d dz b tz i m) = g_F m"
  "g_H (nu_load_P ts d dz b tz i m) = g_H m"
  "g_P (nu_load_P ts d dz b tz i m) = g_P m"
  "g_Q (nu_load_P ts d dz b tz i m) = g_Q m"
  "g_R (nu_load_P ts d dz b tz i m) = g_R m"
  "s_A (nu_load_P ts d dz b tz i m) = s_A m"
  "s_B (nu_load_P ts d dz b tz i m) = s_B m"
  "s_H (nu_load_P ts d dz b tz i m) = s_H m"
  "s_K (nu_load_P ts d dz b tz i m) = s_K m"
  "s_R (nu_load_P ts d dz b tz i m) = s_R m"
  "s_y (nu_load_P ts d dz b tz i m) = s_y m"
  "s_F (nu_load_P ts d dz b tz i m) = s_F m"
  by (simp_all add: nu_load_P_def)

lemma nu_load_H_frame [simp]:
  "g_alpha (nu_load_H ts d dz b tz i m) = g_alpha m"
  "g_x (nu_load_H ts d dz b tz i m) = g_x m"
  "g_z (nu_load_H ts d dz b tz i m) = g_z m"
  "g_F (nu_load_H ts d dz b tz i m) = g_F m"
  "g_H (nu_load_H ts d dz b tz i m) = g_H m"
  "g_P (nu_load_H ts d dz b tz i m) = g_P m"
  "g_Q (nu_load_H ts d dz b tz i m) = g_Q m"
  "g_R (nu_load_H ts d dz b tz i m) = g_R m"
  "s_A (nu_load_H ts d dz b tz i m) = s_A m"
  "s_B (nu_load_H ts d dz b tz i m) = s_B m"
  "s_P (nu_load_H ts d dz b tz i m) = s_P m"
  "s_K (nu_load_H ts d dz b tz i m) = s_K m"
  "s_R (nu_load_H ts d dz b tz i m) = s_R m"
  "s_y (nu_load_H ts d dz b tz i m) = s_y m"
  "s_F (nu_load_H ts d dz b tz i m) = s_F m"
  by (simp_all add: nu_load_H_def)

lemma nu_load_R_frame [simp]:
  "g_alpha (nu_load_R ts d dz b tz i m) = g_alpha m"
  "g_x (nu_load_R ts d dz b tz i m) = g_x m"
  "g_z (nu_load_R ts d dz b tz i m) = g_z m"
  "g_F (nu_load_R ts d dz b tz i m) = g_F m"
  "g_H (nu_load_R ts d dz b tz i m) = g_H m"
  "g_P (nu_load_R ts d dz b tz i m) = g_P m"
  "g_Q (nu_load_R ts d dz b tz i m) = g_Q m"
  "g_R (nu_load_R ts d dz b tz i m) = g_R m"
  "s_A (nu_load_R ts d dz b tz i m) = s_A m"
  "s_B (nu_load_R ts d dz b tz i m) = s_B m"
  "s_P (nu_load_R ts d dz b tz i m) = s_P m"
  "s_H (nu_load_R ts d dz b tz i m) = s_H m"
  "s_K (nu_load_R ts d dz b tz i m) = s_K m"
  "s_y (nu_load_R ts d dz b tz i m) = s_y m"
  "s_F (nu_load_R ts d dz b tz i m) = s_F m"
  by (simp_all add: nu_load_R_def)

lemma nu_innov_frame [simp]:
  "g_alpha (nu_innov ts d dz b tz i m) = g_alpha m"
  "g_x (nu_innov ts d dz b tz i m) = g_x m"
  "g_z (nu_innov ts d dz b tz i m) = g_z m"
  "g_F (nu_innov ts d dz b tz i m) = g_F m"
  "g_H (nu_innov ts d dz b tz i m) = g_H m"
  "g_P (nu_innov ts d dz b tz i m) = g_P m"
  "g_Q (nu_innov ts d dz b tz i m) = g_Q m"
  "g_R (nu_innov ts d dz b tz i m) = g_R m"
  "s_A (nu_innov ts d dz b tz i m) = s_A m"
  "s_B (nu_innov ts d dz b tz i m) = s_B m"
  "s_P (nu_innov ts d dz b tz i m) = s_P m"
  "s_H (nu_innov ts d dz b tz i m) = s_H m"
  "s_K (nu_innov ts d dz b tz i m) = s_K m"
  "s_R (nu_innov ts d dz b tz i m) = s_R m"
  "s_F (nu_innov ts d dz b tz i m) = s_F m"
  by (simp_all add: nu_innov_def)

lemma nu_PHT_frame [simp]:
  "g_alpha (nu_PHT ts d dz b tz i m) = g_alpha m"
  "g_x (nu_PHT ts d dz b tz i m) = g_x m"
  "g_z (nu_PHT ts d dz b tz i m) = g_z m"
  "g_F (nu_PHT ts d dz b tz i m) = g_F m"
  "g_H (nu_PHT ts d dz b tz i m) = g_H m"
  "g_P (nu_PHT ts d dz b tz i m) = g_P m"
  "g_Q (nu_PHT ts d dz b tz i m) = g_Q m"
  "g_R (nu_PHT ts d dz b tz i m) = g_R m"
  "s_B (nu_PHT ts d dz b tz i m) = s_B m"
  "s_P (nu_PHT ts d dz b tz i m) = s_P m"
  "s_H (nu_PHT ts d dz b tz i m) = s_H m"
  "s_K (nu_PHT ts d dz b tz i m) = s_K m"
  "s_R (nu_PHT ts d dz b tz i m) = s_R m"
  "s_y (nu_PHT ts d dz b tz i m) = s_y m"
  "s_F (nu_PHT ts d dz b tz i m) = s_F m"
  by (simp_all add: nu_PHT_def)

lemma nu_S_frame [simp]:
  "g_alpha (nu_S ts d dz b tz i m) = g_alpha m"
  "g_x (nu_S ts d dz b tz i m) = g_x m"
  "g_z (nu_S ts d dz b tz i m) = g_z m"
  "g_F (nu_S ts d dz b tz i m) = g_F m"
  "g_H (nu_S ts d dz b tz i m) = g_H m"
  "g_P (nu_S ts d dz b tz i m) = g_P m"
  "g_Q (nu_S ts d dz b tz i m) = g_Q m"
  "g_R (nu_S ts d dz b tz i m) = g_R m"
  "s_A (nu_S ts d dz b tz i m) = s_A m"
  "s_P (nu_S ts d dz b tz i m) = s_P m"
  "s_H (nu_S ts d dz b tz i m) = s_H m"
  "s_K (nu_S ts d dz b tz i m) = s_K m"
  "s_R (nu_S ts d dz b tz i m) = s_R m"
  "s_y (nu_S ts d dz b tz i m) = s_y m"
  "s_F (nu_S ts d dz b tz i m) = s_F m"
  by (simp_all add: nu_S_def)

lemma nu_inverse_frame [simp]:
  "g_alpha (nu_inverse ts d dz b tz i m) = g_alpha m"
  "g_x (nu_inverse ts d dz b tz i m) = g_x m"
  "g_z (nu_inverse ts d dz b tz i m) = g_z m"
  "g_F (nu_inverse ts d dz b tz i m) = g_F m"
  "g_H (nu_inverse ts d dz b tz i m) = g_H m"
  "g_P (nu_inverse ts d dz b tz i m) = g_P m"
  "g_Q (nu_inverse ts d dz b tz i m) = g_Q m"
  "g_R (nu_inverse ts d dz b tz i m) = g_R m"
  "s_A (nu_inverse ts d dz b tz i m) = s_A m"
  "s_P (nu_inverse ts d dz b tz i m) = s_P m"
  "s_H (nu_inverse ts d dz b tz i m) = s_H m"
  "s_K (nu_inverse ts d dz b tz i m) = s_K m"
  "s_R (nu_inverse ts d dz b tz i m) = s_R m"
  "s_y (nu_inverse ts d dz b tz i m) = s_y m"
  "s_F (nu_inverse ts d dz b tz i m) = s_F m"
  by (simp_all add: nu_inverse_def)

lemma nu_gain_frame [simp]:
  "g_alpha (nu_gain ts d dz b tz i m) = g_alpha m"
  "g_x (nu_gain ts d dz b tz i m) = g_x m"
  "g_z (nu_gain ts d dz b tz i m) = g_z m"
  "g_F (nu_gain ts d dz b tz i m) = g_F m"
  "g_H (nu_gain ts d dz b tz i m) = g_H m"
  "g_P (nu_gain ts d dz b tz i m) = g_P m"
  "g_Q (nu_gain ts d dz b tz i m) = g_Q m"
  "g_R (nu_gain ts d dz b tz i m) = g_R m"
  "s_A (nu_gain ts d dz b tz i m) = s_A m"
  "s_B (nu_gain ts d dz b tz i m) = s_B m"
  "s_P (nu_gain ts d dz b tz i m) = s_P m"
  "s_H (nu_gain ts d dz b tz i m) = s_H m"
  "s_R (nu_gain ts d dz b tz i m) = s_R m"
  "s_y (nu_gain ts d dz b tz i m) = s_y m"
  "s_F (nu_gain ts d dz b tz i m) = s_F m"
  by (simp_all add: nu_gain_def)

lemma nu_state_frame [simp]:
  "g_alpha (nu_state ts d dz b tz i m) = g_alpha m"
  "g_z (nu_state ts d dz b tz i m) = g_z m"
  "g_F (nu_state ts d dz b tz i m) = g_F m"
  "g_H (nu_state ts d dz b tz i m) = g_H m"
  "g_P (nu_state ts d dz b tz i m) = g_P m"
  "g_Q (nu_state ts d dz b tz i m) = g_Q m"
  "g_R (nu_state ts d dz b tz i m) = g_R m"
  "s_A (nu_state ts d dz b tz i m) = s_A m"
  "s_B (nu_state ts d dz b tz i m) = s_B m"
  "s_P (nu_state ts d dz b tz i m) = s_P m"
  "s_H (nu_state ts d dz b tz i m) = s_H m"
  "s_K (nu_state ts d dz b tz i m) = s_K m"
  "s_R (nu_state ts d dz b tz i m) = s_R m"
  "s_y (nu_state ts d dz b tz i m) = s_y m"
  "s_F (nu_state ts d dz b tz i m) = s_F m"
  by (simp_all add: nu_state_def)

lemma nu_IKH_frame [simp]:
  "g_alpha (nu_IKH ts d dz b tz i m) = g_alpha m"
  "g_x (nu_IKH ts d dz b tz i m) = g_x m"
  "g_z (nu_IKH ts d dz b tz i m) = g_z m"
  "g_F (nu_IKH ts d dz b tz i m) = g_F m"
  "g_H (nu_IKH ts d dz b tz i m) = g_H m"
  "g_P (nu_IKH ts d dz b tz i m) = g_P m"
  "g_Q (nu_IKH ts d dz b tz i m) = g_Q m"
  "g_R (nu_IKH ts d dz b tz i m) = g_R m"
  "s_B (nu_IKH ts d dz b tz i m) = s_B m"
  "s_P (nu_IKH ts d dz b tz i m) = s_P m"
  "s_H (nu_IKH ts d dz b tz i m) = s_H m"
  "s_K (nu_IKH ts d dz b tz i m) = s_K m"
  "s_R (nu_IKH ts d dz b tz i m) = s_R m"
  "s_y (nu_IKH ts d dz b tz i m) = s_y m"
  "s_F (nu_IKH ts d dz b tz i m) = s_F m"
  by (simp_all add: nu_IKH_def)

lemma nu_IKHP_frame [simp]:
  "g_alpha (nu_IKHP ts d dz b tz i m) = g_alpha m"
  "g_x (nu_IKHP ts d dz b tz i m) = g_x m"
  "g_z (nu_IKHP ts d dz b tz i m) = g_z m"
  "g_F (nu_IKHP ts d dz b tz i m) = g_F m"
  "g_H (nu_IKHP ts d dz b tz i m) = g_H m"
  "g_P (nu_IKHP ts d dz b tz i m) = g_P m"
  "g_Q (nu_IKHP ts d dz b tz i m) = g_Q m"
  "g_R (nu_IKHP ts d dz b tz i m) = g_R m"
  "s_A (nu_IKHP ts d dz b tz i m) = s_A m"
  "s_P (nu_IKHP ts d dz b tz i m) = s_P m"
  "s_H (nu_IKHP ts d dz b tz i m) = s_H m"
  "s_K (nu_IKHP ts d dz b tz i m) = s_K m"
  "s_R (nu_IKHP ts d dz b tz i m) = s_R m"
  "s_y (nu_IKHP ts d dz b tz i m) = s_y m"
  "s_F (nu_IKHP ts d dz b tz i m) = s_F m"
  by (simp_all add: nu_IKHP_def)

lemma nu_KR_frame [simp]:
  "g_alpha (nu_KR ts d dz b tz i m) = g_alpha m"
  "g_x (nu_KR ts d dz b tz i m) = g_x m"
  "g_z (nu_KR ts d dz b tz i m) = g_z m"
  "g_F (nu_KR ts d dz b tz i m) = g_F m"
  "g_H (nu_KR ts d dz b tz i m) = g_H m"
  "g_P (nu_KR ts d dz b tz i m) = g_P m"
  "g_Q (nu_KR ts d dz b tz i m) = g_Q m"
  "g_R (nu_KR ts d dz b tz i m) = g_R m"
  "s_B (nu_KR ts d dz b tz i m) = s_B m"
  "s_P (nu_KR ts d dz b tz i m) = s_P m"
  "s_H (nu_KR ts d dz b tz i m) = s_H m"
  "s_K (nu_KR ts d dz b tz i m) = s_K m"
  "s_R (nu_KR ts d dz b tz i m) = s_R m"
  "s_y (nu_KR ts d dz b tz i m) = s_y m"
  "s_F (nu_KR ts d dz b tz i m) = s_F m"
  by (simp_all add: nu_KR_def)

lemma cu_load_P_frame [simp]:
  "g_alpha (cu_load_P ts d dz b tz i m) = g_alpha m"
  "g_x (cu_load_P ts d dz b tz i m) = g_x m"
  "g_z (cu_load_P ts d dz b tz i m) = g_z m"
  "g_F (cu_load_P ts d dz b tz i m) = g_F m"
  "g_H (cu_load_P ts d dz b tz i m) = g_H m"
  "g_P (cu_load_P ts d dz b tz i m) = g_P m"
  "g_Q (cu_load_P ts d dz b tz i m) = g_Q m"
  "g_R (cu_load_P ts d dz b tz i m) = g_R m"
  "s_A (cu_load_P ts d dz b tz i m) = s_A m"
  "s_B (cu_load_P ts d dz b tz i m) = s_B m"
  "s_H (cu_load_P ts d dz b tz i m) = s_H m"
  "s_K (cu_load_P ts d dz b tz i m) = s_K m"
  "s_R (cu_load_P ts d dz b tz i m) = s_R m"
  "s_y (cu_load_P ts d dz b tz i m) = s_y m"
  "s_F (cu_load_P ts d dz b tz i m) = s_F m"
  by (simp_all add: cu_load_P_def)

lemma cu_load_H_frame [simp]:
  "g_alpha (cu_load_H ts d dz b tz i m) = g_alpha m"
  "g_x (cu_load_H ts d dz b tz i m) = g_x m"
  "g_z (cu_load_H ts d dz b tz i m) = g_z m"
  "g_F (cu_load_H ts d dz b tz i m) = g_F m"
  "g_H (cu_load_H ts d dz b tz i m) = g_H m"
  "g_P (cu_load_H ts d dz b tz i m) = g_P m"
  "g_Q (cu_load_H ts d dz b tz i m) = g_Q m"
  "g_R (cu_load_H ts d dz b tz i m) = g_R m"
  "s_A (cu_load_H ts d dz b tz i m) = s_A m"
  "s_B (cu_load_H ts d dz b tz i m) = s_B m"
  "s_P (cu_load_H ts d dz b tz i m) = s_P m"
  "s_K (cu_load_H ts d dz b tz i m) = s_K m"
  "s_R (cu_load_H ts d dz b tz i m) = s_R m"
  "s_y (cu_load_H ts d dz b tz i m) = s_y m"
  "s_F (cu_load_H ts d dz b tz i m) = s_F m"
  by (simp_all add: cu_load_H_def)

lemma cu_load_R_frame [simp]:
  "g_alpha (cu_load_R ts d dz b tz i m) = g_alpha m"
  "g_x (cu_load_R ts d dz b tz i m) = g_x m"
  "g_z (cu_load_R ts d dz b tz i m) = g_z m"
  "g_F (cu_load_R ts d dz b tz i m) = g_F m"
  "g_H (cu_load_R ts d dz b tz i m) = g_H m"
  "g_P (cu_load_R ts d dz b tz i m) = g_P m"
  "g_Q (cu_load_R ts d dz b tz i m) = g_Q m"
  "g_R (cu_load_R ts d dz b tz i m) = g_R m"
  "s_A (cu_load_R ts d dz b tz i m) = s_A m"
  "s_B (cu_load_R ts d dz b tz i m) = s_B m"
  "s_P (cu_load_R ts d dz b tz i m) = s_P m"
  "s_H (cu_load_R ts d dz b tz i m) = s_H m"
  "s_K (cu_load_R ts d dz b tz i m) = s_K m"
  "s_y (cu_load_R ts d dz b tz i m) = s_y m"
  "s_F (cu_load_R ts d dz b tz i m) = s_F m"
  by (simp_all add: cu_load_R_def)

lemma cu_innov_frame [simp]:
  "g_alpha (cu_innov ts d dz b tz i m) = g_alpha m"
  "g_x (cu_innov ts d dz b tz i m) = g_x m"
  "g_z (cu_innov ts d dz b tz i m) = g_z m"
  "g_F (cu_innov ts d dz b tz i m) = g_F m"
  "g_H (cu_innov ts d dz b tz i m) = g_H m"
  "g_P (cu_innov ts d dz b tz i m) = g_P m"
  "g_Q (cu_innov ts d dz b tz i m) = g_Q m"
  "g_R (cu_innov ts d dz b tz i m) = g_R m"
  "s_A (cu_innov ts d dz b tz i m) = s_A m"
  "s_B (cu_innov ts d dz b tz i m) = s_B m"
  "s_P (cu_innov ts d dz b tz i m) = s_P m"
  "s_H (cu_innov ts d dz b tz i m) = s_H m"
  "s_K (cu_innov ts d dz b tz i m) = s_K m"
  "s_R (cu_innov ts d dz b tz i m) = s_R m"
  "s_F (cu_innov ts d dz b tz i m) = s_F m"
  by (simp_all add: cu_innov_def)

lemma cu_PHT_frame [simp]:
  "g_alpha (cu_PHT ts d dz b tz i m) = g_alpha m"
  "g_x (cu_PHT ts d dz b tz i m) = g_x m"
  "g_z (cu_PHT ts d dz b tz i m) = g_z m"
  "g_F (cu_PHT ts d dz b tz i m) = g_F m"
  "g_H (cu_PHT ts d dz b tz i m) = g_H m"
  "g_P (cu_PHT ts d dz b tz i m) = g_P m"
  "g_Q (cu_PHT ts d dz b tz i m) = g_Q m"
  "g_R (cu_PHT ts d dz b tz i m) = g_R m"
  "s_B (cu_PHT ts d dz b tz i m) = s_B m"
  "s_P (cu_PHT ts d dz b tz i m) = s_P m"
  "s_H (cu_PHT ts d dz b tz i m) = s_H m"
  "s_K (cu_PHT ts d dz b tz i m) = s_K m"
  "s_R (cu_PHT ts d dz b tz i m) = s_R m"
  "s_y (cu_PHT ts d dz b tz i m) = s_y m"
  "s_F (cu_PHT ts d dz b tz i m) = s_F m"
  by (simp_all add: cu_PHT_def)

lemma cu_S_frame [simp]:
  "g_alpha (cu_S ts d dz b tz i m) = g_alpha m"
  "g_x (cu_S ts d dz b tz i m) = g_x m"
  "g_z (cu_S ts d dz b tz i m) = g_z m"
  "g_F (cu_S ts d dz b tz i m) = g_F m"
  "g_H (cu_S ts d dz b tz i m) = g_H m"
  "g_P (cu_S ts d dz b tz i m) = g_P m"
  "g_Q (cu_S ts d dz b tz i m) = g_Q m"
  "g_R (cu_S ts d dz b tz i m) = g_R m"
  "s_A (cu_S ts d dz b tz i m) = s_A m"
  "s_P (cu_S ts d dz b tz i m) = s_P m"
  "s_H (cu_S ts d dz b tz i m) = s_H m"
  "s_K (cu_S ts d dz b tz i m) = s_K m"
  "s_R (cu_S ts d dz b tz i m) = s_R m"
  "s_y (cu_S ts d dz b tz i m) = s_y m"
  "s_F (cu_S ts d dz b tz i m) = s_F m"
  by (simp_all add: cu_S_def)

lemma cu_inverse_frame [simp]:
  "g_alpha (cu_inverse ts d dz b tz i m) = g_alpha m"
  "g_x (cu_inverse ts d dz b tz i m) = g_x m"
  "g_z (cu_inverse ts d dz b tz i m) = g_z m"
  "g_F (cu_inverse ts d dz b tz i m) = g_F m"
  "g_H (cu_inverse ts d dz b tz i m) = g_H m"
  "g_P (cu_inverse ts d dz b tz i m) = g_P m"
  "g_Q (cu_inverse ts d dz b tz i m) = g_Q m"
  "g_R (cu_inverse ts d dz b tz i m) = g_R m"
  "s_A (cu_inverse ts d dz b tz i m) = s_A m"
  "s_P (cu_inverse ts d dz b tz i m) = s_P m"
  "s_H (cu_inverse ts d dz b tz i m) = s_H m"
  "s_K (cu_inverse ts d dz b tz i m) = s_K m"
  "s_R (cu_inverse ts d dz b tz i m) = s_R m"
  "s_y (cu_inverse ts d dz b tz i m) = s_y m"
  "s_F (cu_inverse ts d dz b tz i m) = s_F m"
  by (simp_all add: cu_inverse_def)

lemma cu_gain_frame [simp]:
  "g_alpha (cu_gain ts d dz b tz i m) = g_alpha m"
  "g_x (cu_gain ts d dz b tz i m) = g_x m"
  "g_z (cu_gain ts d dz b tz i m) = g_z m"
  "g_F (cu_gain ts d dz b tz i m) = g_F m"
  "g_H (cu_gain ts d dz b tz i m) = g_H m"
  "g_P (cu_gain ts d dz b tz i m) = g_P m"
  "g_Q (cu_gain ts d dz b tz i m) = g_Q m"
  "g_R (cu_gain ts d dz b tz i m) = g_R m"
  "s_A (cu_gain ts d dz b tz i m) = s_A m"
  "s_B (cu_gain ts d dz b tz i m) = s_B m"
  "s_P (cu_gain ts d dz b tz i m) = s_P m"
  "s_H (cu_gain ts d dz b tz i m) = s_H m"
  "s_R (cu_gain ts d dz b tz i m) = s_R m"
  "s_y (cu_gain ts d dz b tz i m) = s_y m"
  "s_F (cu_gain ts d dz b tz i m) = s_F m"
  by (simp_all add: cu_gain_def)

lemma cu_state_frame [simp]:
  "g_alpha (cu_state ts d dz b tz i m) = g_alpha m"
  "g_z (cu_state ts d dz b tz i m) = g_z m"
  "g_F (cu_state ts d dz b tz i m) = g_F m"
  "g_H (cu_state ts d dz b tz i m) = g_H m"
  "g_P (cu_state ts d dz b tz i m) = g_P m"
  "g_Q (cu_state ts d dz b tz i m) = g_Q m"
  "g_R (cu_state ts d dz b tz i m) = g_R m"
  "s_A (cu_state ts d dz b tz i m) = s_A m"
  "s_B (cu_state ts d dz b tz i m) = s_B m"
  "s_P (cu_state ts d dz b tz i m) = s_P m"
  "s_H (cu_state ts d dz b tz i m) = s_H m"
  "s_K (cu_state ts d dz b tz i m) = s_K m"
  "s_R (cu_state ts d dz b tz i m) = s_R m"
  "s_y (cu_state ts d dz b tz i m) = s_y m"
  "s_F (cu_state ts d dz b tz i m) = s_F m"
  by (simp_all add: cu_state_def)

lemma cu_IKH_frame [simp]:
  "g_alpha (cu_IKH ts d dz b tz i m) = g_alpha m"
  "g_x (cu_IKH ts d dz b tz i m) = g_x m"
  "g_z (cu_IKH ts d dz b tz i m) = g_z m"
  "g_F (cu_IKH ts d dz b tz i m) = g_F m"
  "g_H (cu_IKH ts d dz b tz i m) = g_H m"
  "g_P (cu_IKH ts d dz b tz i m) = g_P m"
  "g_Q (cu_IKH ts d dz b tz i m) = g_Q m"
  "g_R (cu_IKH ts d dz b tz i m) = g_R m"
  "s_B (cu_IKH ts d dz b tz i m) = s_B m"
  "s_P (cu_IKH ts d dz b tz i m) = s_P m"
  "s_H (cu_IKH ts d dz b tz i m) = s_H m"
  "s_K (cu_IKH ts d dz b tz i m) = s_K m"
  "s_R (cu_IKH ts d dz b tz i m) = s_R m"
  "s_y (cu_IKH ts d dz b tz i m) = s_y m"
  "s_F (cu_IKH ts d dz b tz i m) = s_F m"
  by (simp_all add: cu_IKH_def)

lemma cu_IKHP_frame [simp]:
  "g_alpha (cu_IKHP ts d dz b tz i m) = g_alpha m"
  "g_x (cu_IKHP ts d dz b tz i m) = g_x m"
  "g_z (cu_IKHP ts d dz b tz i m) = g_z m"
  "g_F (cu_IKHP ts d dz b tz i m) = g_F m"
  "g_H (cu_IKHP ts d dz b tz i m) = g_H m"
  "g_P (cu_IKHP ts d dz b tz i m) = g_P m"
  "g_Q (cu_IKHP ts d dz b tz i m) = g_Q m"
  "g_R (cu_IKHP ts d dz b tz i m) = g_R m"
  "s_A (cu_IKHP ts d dz b tz i m) = s_A m"
  "s_P (cu_IKHP ts d dz b tz i m) = s_P m"
  "s_H (cu_IKHP ts d dz b tz i m) = s_H m"
  "s_K (cu_IKHP ts d dz b tz i m) = s_K m"
  "s_R (cu_IKHP ts d dz b tz i m) = s_R m"
  "s_y (cu_IKHP ts d dz b tz i m) = s_y m"
  "s_F (cu_IKHP ts d dz b tz i m) = s_F m"
  by (simp_all add: cu_IKHP_def)

lemma cu_IKHPT_frame [simp]:
  "g_alpha (cu_IKHPT ts d dz b tz i m) = g_alpha m"
  "g_x (cu_IKHPT ts d dz b tz i m) = g_x m"
  "g_z (cu_IKHPT ts d dz b tz i m) = g_z m"
  "g_F (cu_IKHPT ts d dz b tz i m) = g_F m"
  "g_H (cu_IKHPT ts d dz b tz i m) = g_H m"
  "g_P (cu_IKHPT ts d dz b tz i m) = g_P m"
  "g_Q (cu_IKHPT ts d dz b tz i m) = g_Q m"
  "g_R (cu_IKHPT ts d dz b tz i m) = g_R m"
  "s_A (cu_IKHPT ts d dz b tz i m) = s_A m"
  "s_B (cu_IKHPT ts d dz b tz i m) = s_B m"
  "s_H (cu_IKHPT ts d dz b tz i m) = s_H m"
  "s_K (cu_IKHPT ts d dz b tz i m) = s_K m"
  "s_R (cu_IKHPT ts d dz b tz i m) = s_R m"
  "s_y (cu_IKHPT ts d dz b tz i m) = s_y m"
  "s_F (cu_IKHPT ts d dz b tz i m) = s_F m"
  by (simp_all add: cu_IKHPT_def)

lemma cu_KR_frame [simp]:
  "g_alpha (cu_KR ts d dz b tz i m) = g_alpha m"
  "g_x (cu_KR ts d dz b tz i m) = g_x m"
  "g_z (cu_KR ts d dz b tz i m) = g_z m"
  "g_F (cu_KR ts d dz b tz i m) = g_F m"
  "g_H (cu_KR ts d dz b tz i m) = g_H m"
  "g_P (cu_KR ts d dz b tz i m) = g_P m"
  "g_Q (cu_KR ts d dz b tz i m) = g_Q m"
  "g_R (cu_KR ts d dz b tz i m) = g_R m"
  "s_B (cu_KR ts d dz b tz i m) = s_B m"
  "s_P (cu_KR ts d dz b tz i m) = s_P m"
  "s_H (cu_KR ts d dz b tz i m) = s_H m"
  "s_K (cu_KR ts d dz b tz i m) = s_K m"
  "s_R (cu_KR ts d dz b tz i m) = s_R m"
  "s_y (cu_KR ts d dz b tz i m) = s_y m"
  "s_F (cu_KR ts d dz b tz i m) = s_F m"
  by (simp_all add: cu_KR_def)

lemma cu_store_P_frame [simp]:
  "g_alpha (cu_store_P ts d dz b tz i m) = g_alpha m"
  "g_x (cu_store_P ts d dz b tz i m) = g_x m"
  "g_z (cu_store_P ts d dz b tz i m) = g_z m"
  "g_F (cu_store_P ts d dz b tz i m) = g_F m"
  "g_H (cu_store_P ts d dz b tz i m) = g_H m"
  "g_Q (cu_store_P ts d dz b tz i m) = g_Q m"
  "g_R (cu_store_P ts d dz b tz i m) = g_R m"
  "s_A (cu_store_P ts d dz b tz i m) = s_A m"
  "s_B (cu_store_P ts d dz b tz i m) = s_B m"
  "s_P (cu_store_P ts d dz b tz i m) = s_P m"
  "s_H (cu_store_P ts d dz b tz i m) = s_H m"
  "s_K (cu_store_P ts d dz b tz i m) = s_K m"
  "s_R (cu_store_P ts d dz b tz i m) = s_R m"
  "s_y (cu_store_P ts d dz b tz i m) = s_y m"
  "s_F (cu_store_P ts d dz b tz i m) = s_F m"
  by (simp_all add: cu_store_P_def)

lemma nu_store_P_frame [simp]:
  "g_alpha (nu_store_P ts d dz b tz i temp m) = g_alpha m"
  "g_x (nu_store_P ts d dz b tz i temp m) = g_x m"
  "g_z (nu_store_P ts d dz b tz i temp m) = g_z m"
  "g_F (nu_store_P ts d dz b tz i temp m) = g_F m"
  "g_H (nu_store_P ts d dz b tz i temp m) = g_H m"
  "g_Q (nu_store_P ts d dz b tz i temp m) = g_Q m"
  "g_R (nu_store_P ts d dz b tz i temp m) = g_R m"
  "s_A (nu_store_P ts d dz b tz i temp m) = s_A m"
  "s_B (nu_store_P ts d dz b tz i temp m) = s_B m"
  "s_P (nu_store_P ts d dz b tz i temp m) = s_P m"
  "s_H (nu_store_P ts d dz b tz i temp m) = s_H m"
  "s_K (nu_store_P ts d dz b tz i temp m) = s_K m"
  "s_R (nu_store_P ts d dz b tz i temp m) = s_R m"
  "s_y (nu_store_P ts d dz b tz i temp m) = s_y m"
  "s_F (nu_store_P ts d dz b tz i temp m) = s_F m"
  by (simp_all add: nu_store_P_def)

















































lemma numba_update_body_frame [simp]:
  "g_alpha (numba_update_body ts d dz b tz i m) = g_alpha m"
  "g_z (numba_update_body ts d dz b tz i m) = g_z m"
  "g_F (numba_update_body ts d dz b tz i m) = g_F m"
  "g_H (numba_update_body ts d dz b tz i m) = g_H m"
  "g_Q (numba_update_body ts d dz b tz i m) = g_Q m"
  "g_R (numba_update_body ts d dz b tz i m) = g_R m"
  by (simp_all add: numba_update_body_def Let_def)

lemma cupy_update_body_frame [simp]:
  "g_alpha (cupy_update_body ts d dz b tz i m) = g_alpha m"
  "g_z (cupy_update_body ts d dz b tz i m) = g_z m"
  "g_F (cupy_update_body ts d dz b tz i m) = g_F m"
  "g_H (cupy_update_body ts d dz b tz i m) = g_H m"
  "g_Q (cupy_update_body ts d dz b tz i m) = g_Q m"
  "g_R (cupy_update_body ts d dz b tz i m) = g_R m"
  by (simp_all add: cupy_update_body_def)


















lemma fold_unchanged:
  assumes "\<And>x m. g (f x m) = g m"
  shows "g (fold f xs m) = g m"
  using assms by (induction xs arbitrary: m) simp_all

lemma launch_unchanged:
  assumes "\<And>b tz i m. g (body b tz i m) = g m"
  shows "g (fold (\<lambda>z. fold (body (z div bdz) (z mod bdz)) (grid_stride z n s)) zs m) = g m"
  by (rule fold_unchanged, rule fold_unchanged, rule assms)

text \<open>
  Claim C10. A launch of predict leaves \<open>alpha\<^sup>2\<close>, \<open>F\<close> and \<open>Q\<close> as they were, and a
  launch of update leaves the measurement \<open>z\<close>, \<open>H\<close> and \<open>R\<close> as they were: the buffers
  after the launch are the buffers before it, at every index, in both backends, for every
  dimension, batch size, launch geometry and order of the threads (no statement of the
  kernels stores into them).
\<close>

theorem kernels_frame:
  "g_alpha (numba_predict ts bdz gdz dim_x n m) = g_alpha m
   \<and> g_F (numba_predict ts bdz gdz dim_x n m) = g_F m
   \<and> g_Q (numba_predict ts bdz gdz dim_x n m) = g_Q m
   \<and> g_alpha (cupy_predict ts bdz gdz dim_x n mc) = g_alpha mc
   \<and> g_F (cupy_predict ts bdz gdz dim_x n mc) = g_F mc
   \<and> g_Q (cupy_predict ts bdz gdz dim_x n mc) = g_Q mc
   \<and> g_z (numba_update ts bdz gdz dim_x dim_z n m) = g_z m
   \<and> g_H (numba_update ts bdz gdz dim_x dim_z n m) = g_H m
   \<and> g_R (numba_update ts bdz gdz dim_x dim_z n m) = g_R m
   \<and> g_z (cupy_update ts bdz gdz dim_x dim_z n mc) = g_z mc
   \<and> g_H (cupy_update ts bdz gdz dim_x dim_z n mc) = g_H mc
   \<and> g_R (cupy_update ts bdz gdz dim_x dim_z n mc) = g_R mc"
  unfolding numba_predict_def cupy_predict_def numba_update_def cupy_update_def
  by (intro conjI launch_unchanged numba_predict_body_frame cupy_predict_body_frame
      numba_update_body_frame cupy_update_body_frame)































end
